theory Spec2Isabelle
  imports Main
begin

section \<open>Data model\<close>

text \<open>
  A Python \<open>str\<close> is a sequence of Unicode code points. The program's texts are mostly
  Chinese, so a string is modelled as the list of its code points.
\<close>

type_synonym ustr = "nat list"

text \<open>
  The result of a call that may raise: \<open>Raised d\<close> carries \<open>str(e)\<close> of the exception,
  which is all the handlers of the program read from it.
\<close>

datatype 'a outcome = Raised ustr | Returned 'a

text \<open>An entry of \<open>llm_context\<close>: the dict \<open>{"role": ..., "content": ...}\<close>.\<close>

datatype role = System | Assistant | User

record message =
  role :: role
  content :: ustr

text \<open>
  The value stored under a session id in \<open>game_sessions\<close> (main.py, lines 88-92): always the
  dict with the three keys \<open>game_active\<close>, \<open>llm_context\<close>, \<open>last_options\<close>.
\<close>

record session =
  game_active :: bool
  llm_context :: "message list"
  last_options :: "ustr \<rightharpoonup> ustr"

text \<open>The keyword arguments of \<open>text_chat\<close>.\<close>

record chat_request =
  prompt :: ustr
  system_prompt :: ustr
  contexts :: "message list"

text \<open>
  What the program reads of a provider response: \<open>completion_text\<close>, which is \<open>None\<close> here
  when the response object has no such attribute (\<open>hasattr\<close> is false).
\<close>

record llm_response =
  completion_text :: "ustr option"

text \<open>
  What the program reads of a conversation object: \<open>persona_id\<close>. The outer \<open>None\<close> is an
  object without the attribute, \<open>Some None\<close> is the attribute holding Python's \<open>None\<close>.
\<close>

record conversation =
  persona_id :: "ustr option option"

text \<open>
  The inbound event: its session id, its text, and the two marks the program sets on it
  (\<open>should_call_llm(False)\<close> clears \<open>call_llm\<close>, \<open>stop_event()\<close> sets \<open>is_stopped\<close>).
\<close>

record event =
  unified_msg_origin :: ustr
  message_str :: ustr
  call_llm :: bool
  is_stopped :: bool

text \<open>The dict \<open>prompt_templates\<close>, whose five keys are fixed in \<open>__init__\<close>.\<close>

record prompt_templates =
  SYSTEM_SCENE_PROMPT :: ustr
  OPTION_A_PROMPT :: ustr
  OPTION_B_PROMPT :: ustr
  OPTION_C_PROMPT :: ustr
  SYSTEM_RESPONSE_PROMPT :: ustr

text \<open>
  The host framework, the provider and the Python built-ins the program calls are not part
  of the repository. They are a parameter of the model: a record of functions over a host
  state \<open>'w\<close>. An awaited call returns its outcome and the next host state; a synchronous
  getter reads the host state. \<open>get_using_provider\<close> returns whether there is a provider
  (\<open>False\<close> is Python's \<open>None\<close>). A persona is a dict, given as an association list.
  \<open>py_upper\<close> is \<open>str.upper\<close> and \<open>py_repr\<close> is \<open>repr\<close> on a \<open>str\<close>
  (\<open>str(KeyError(k))\<close> is \<open>repr(k)\<close>).

  The host has no access to \<open>game_sessions\<close>: \<open>text_chat\<close> is taken not to mutate the
  history list it is handed, and no other handler runs on the plugin while a generator waits
  for an awaited call.
\<close>

record 'w host =
  get_curr_conversation_id :: "'w \<Rightarrow> ustr \<Rightarrow> ustr option outcome \<times> 'w"
  get_conversation :: "'w \<Rightarrow> ustr \<Rightarrow> ustr option \<Rightarrow> conversation option outcome \<times> 'w"
  get_llm_tool_manager :: "'w \<Rightarrow> unit outcome"
  selected_default_persona :: "'w \<Rightarrow> (ustr \<times> ustr) list option outcome"
  personas :: "'w \<Rightarrow> (ustr \<times> ustr) list list outcome"
  get_using_provider :: "'w \<Rightarrow> bool outcome"
  text_chat :: "'w \<Rightarrow> chat_request \<Rightarrow> llm_response outcome \<times> 'w"
  py_upper :: "ustr \<Rightarrow> ustr"
  py_repr :: "ustr \<Rightarrow> ustr"

text \<open>
  The state a handler runs in: the texts it has yielded so far (\<open>emitted\<close>), the requests
  it has sent to \<open>text_chat\<close> so far (\<open>requests\<close>), the dict \<open>game_sessions\<close> and the host
  state.
\<close>

record 'w run =
  emitted :: "ustr list"
  requests :: "chat_request list"
  game_sessions :: "ustr \<rightharpoonup> session"
  world :: 'w

section \<open>String constants of main.py\<close>

text \<open>
  Each constant is one string literal of main.py, written as the list of its code points;
  the comment gives the line of the literal and what it says.
\<close>

definition KEY_scene_prompt :: ustr where \<comment> \<open>line 39: configuration key "scene_prompt"\<close>
  "KEY_scene_prompt =
    [0x73, 0x63, 0x65, 0x6E, 0x65, 0x5F, 0x70, 0x72, 0x6F, 0x6D, 0x70, 0x74]"

definition DEFAULT_SCENE_PROMPT :: ustr where \<comment> \<open>line 40: built-in opening-scene template\<close>
  "DEFAULT_SCENE_PROMPT =
    [0x4F60, 0x73B0, 0x5728, 0x626E, 0x6F14, 0x47, 0x61, 0x6C, 0x67, 0x61, 0x6D, 0x65, 0x4E2D,
     0x7684, 0x4E00, 0x4E2A, 0x89D2, 0x8272, 0xFF0C, 0x8BF7, 0x6839, 0x636E, 0x5F53, 0x524D,
     0x4EBA, 0x683C, 0x8BBE, 0x5B9A, 0xFF0C, 0x4EE5, 0x7B2C, 0x4E00, 0x4EBA, 0x79F0, 0x89C6,
     0x89D2, 0x521B, 0x9020, 0x4E00, 0x4E2A, 0x6C89, 0x6D78, 0x5F0F, 0x5F00, 0x573A, 0xFF1A,
     0x31, 0x29, 0x63CF, 0x8FF0, 0x5468, 0x56F4, 0x73AF, 0x5883, 0x548C, 0x6C1B, 0x56F4,
     0xFF0C, 0x32, 0x29, 0x8868, 0x8FBE, 0x4F60, 0x28, 0x89D2, 0x8272, 0x29, 0x6B64, 0x523B,
     0x7684, 0x5FC3, 0x60C5, 0x548C, 0x60F3, 0x6CD5, 0xFF0C, 0x33, 0x29, 0x5411, 0x73A9,
     0x5BB6, 0x28, 0x79F0, 0x4E3A, 0x27, 0x4F60, 0x27, 0x29, 0x81EA, 0x7136, 0x5730, 0x5F00,
     0x542F, 0x5BF9, 0x8BDD, 0x3002, 0x6CE8, 0x610F, 0x4FDD, 0x6301, 0x89D2, 0x8272, 0x7279,
     0x70B9, 0x4E00, 0x81F4, 0xFF0C, 0x5E76, 0x5728, 0x5BF9, 0x8BDD, 0x4E2D, 0x57CB, 0x4E0B,
     0x540E, 0x7EED, 0x5267, 0x60C5, 0x7684, 0x4F0F, 0x7B14, 0x3002]"

definition KEY_option_a_prompt :: ustr where \<comment> \<open>line 42: configuration key "option_a_prompt"\<close>
  "KEY_option_a_prompt =
    [0x6F, 0x70, 0x74, 0x69, 0x6F, 0x6E, 0x5F, 0x61, 0x5F, 0x70, 0x72, 0x6F, 0x6D, 0x70, 0x74]"

definition DEFAULT_OPTION_A_PROMPT :: ustr where \<comment> \<open>line 43: built-in template of option A\<close>
  "DEFAULT_OPTION_A_PROMPT =
    [0x57FA, 0x4E8E, 0x5F53, 0x524D, 0x6545, 0x4E8B, 0x60C5, 0x5883, 0xFF0C, 0x4E3A, 0x73A9,
     0x5BB6, 0x521B, 0x5EFA, 0x4E00, 0x4E2A, 0x6E29, 0x67D4, 0x2F, 0x4F53, 0x8D34, 0x2F,
     0x5584, 0x89E3, 0x4EBA, 0x610F, 0x98CE, 0x683C, 0x7684, 0x4E92, 0x52A8, 0x9009, 0x9879,
     0xFF0C, 0x6807, 0x8BB0, 0x4E3A, 0x41, 0x3002, 0x8FD9, 0x4E2A, 0x9009, 0x9879, 0x5E94,
     0x8BE5, 0x662F, 0x73A9, 0x5BB6, 0x5BF9, 0x89D2, 0x8272, 0x8BF4, 0x7684, 0x8BDD, 0x6216,
     0x91C7, 0x53D6, 0x7684, 0x884C, 0x52A8, 0xFF0C, 0x800C, 0x975E, 0x89D2, 0x8272, 0x7684,
     0x60F3, 0x6CD5, 0x3002, 0x5FC5, 0x987B, 0x4E25, 0x683C, 0x6309, 0x7167, 0x27, 0x41, 0x20,
     0x2D, 0x20, 0x5B, 0x9009, 0x9879, 0x5185, 0x5BB9, 0x5D, 0x27, 0x683C, 0x5F0F, 0x8F93,
     0x51FA, 0xFF0C, 0x5185, 0x5BB9, 0x63A7, 0x5236, 0x5728, 0x32, 0x30, 0x5B57, 0x4EE5,
     0x5185, 0x3002]"

definition KEY_option_b_prompt :: ustr where \<comment> \<open>line 45: configuration key "option_b_prompt"\<close>
  "KEY_option_b_prompt =
    [0x6F, 0x70, 0x74, 0x69, 0x6F, 0x6E, 0x5F, 0x62, 0x5F, 0x70, 0x72, 0x6F, 0x6D, 0x70, 0x74]"

definition DEFAULT_OPTION_B_PROMPT :: ustr where \<comment> \<open>line 46: built-in template of option B\<close>
  "DEFAULT_OPTION_B_PROMPT =
    [0x57FA, 0x4E8E, 0x5F53, 0x524D, 0x6545, 0x4E8B, 0x60C5, 0x5883, 0xFF0C, 0x4E3A, 0x73A9,
     0x5BB6, 0x521B, 0x5EFA, 0x4E00, 0x4E2A, 0x6311, 0x9017, 0x2F, 0x66A7, 0x6627, 0x2F,
     0x5E7D, 0x9ED8, 0x98CE, 0x683C, 0x7684, 0x4E92, 0x52A8, 0x9009, 0x9879, 0xFF0C, 0x6807,
     0x8BB0, 0x4E3A, 0x42, 0x3002, 0x8FD9, 0x4E2A, 0x9009, 0x9879, 0x5E94, 0x8BE5, 0x662F,
     0x73A9, 0x5BB6, 0x5BF9, 0x89D2, 0x8272, 0x8BF4, 0x7684, 0x8BDD, 0x6216, 0x91C7, 0x53D6,
     0x7684, 0x884C, 0x52A8, 0xFF0C, 0x800C, 0x975E, 0x89D2, 0x8272, 0x7684, 0x60F3, 0x6CD5,
     0x3002, 0x5FC5, 0x987B, 0x4E25, 0x683C, 0x6309, 0x7167, 0x27, 0x42, 0x20, 0x2D, 0x20,
     0x5B, 0x9009, 0x9879, 0x5185, 0x5BB9, 0x5D, 0x27, 0x683C, 0x5F0F, 0x8F93, 0x51FA, 0xFF0C,
     0x5185, 0x5BB9, 0x63A7, 0x5236, 0x5728, 0x32, 0x30, 0x5B57, 0x4EE5, 0x5185, 0x3002]"

definition KEY_option_c_prompt :: ustr where \<comment> \<open>line 48: configuration key "option_c_prompt"\<close>
  "KEY_option_c_prompt =
    [0x6F, 0x70, 0x74, 0x69, 0x6F, 0x6E, 0x5F, 0x63, 0x5F, 0x70, 0x72, 0x6F, 0x6D, 0x70, 0x74]"

definition DEFAULT_OPTION_C_PROMPT :: ustr where \<comment> \<open>line 49: built-in template of option C\<close>
  "DEFAULT_OPTION_C_PROMPT =
    [0x57FA, 0x4E8E, 0x5F53, 0x524D, 0x6545, 0x4E8B, 0x60C5, 0x5883, 0xFF0C, 0x4E3A, 0x73A9,
     0x5BB6, 0x521B, 0x5EFA, 0x4E00, 0x4E2A, 0x7406, 0x6027, 0x2F, 0x4FDD, 0x5B88, 0x2F,
     0x8C28, 0x614E, 0x98CE, 0x683C, 0x7684, 0x4E92, 0x52A8, 0x9009, 0x9879, 0xFF0C, 0x6807,
     0x8BB0, 0x4E3A, 0x43, 0x3002, 0x8FD9, 0x4E2A, 0x9009, 0x9879, 0x5E94, 0x8BE5, 0x662F,
     0x73A9, 0x5BB6, 0x5BF9, 0x89D2, 0x8272, 0x8BF4, 0x7684, 0x8BDD, 0x6216, 0x91C7, 0x53D6,
     0x7684, 0x884C, 0x52A8, 0xFF0C, 0x800C, 0x975E, 0x89D2, 0x8272, 0x7684, 0x60F3, 0x6CD5,
     0x3002, 0x5FC5, 0x987B, 0x4E25, 0x683C, 0x6309, 0x7167, 0x27, 0x43, 0x20, 0x2D, 0x20,
     0x5B, 0x9009, 0x9879, 0x5185, 0x5BB9, 0x5D, 0x27, 0x683C, 0x5F0F, 0x8F93, 0x51FA, 0xFF0C,
     0x5185, 0x5BB9, 0x63A7, 0x5236, 0x5728, 0x32, 0x30, 0x5B57, 0x4EE5, 0x5185, 0x3002]"

definition KEY_response_prompt :: ustr where \<comment> \<open>line 51: configuration key "response_prompt"\<close>
  "KEY_response_prompt =
    [0x72, 0x65, 0x73, 0x70, 0x6F, 0x6E, 0x73, 0x65, 0x5F, 0x70, 0x72, 0x6F, 0x6D, 0x70, 0x74]"

definition DEFAULT_RESPONSE_PROMPT :: ustr where \<comment> \<open>line 52: built-in continuation template\<close>
  "DEFAULT_RESPONSE_PROMPT =
    [0x73A9, 0x5BB6, 0x5DF2, 0x9009, 0x62E9, 0x4E86, 0x4E00, 0x4E2A, 0x4E92, 0x52A8, 0x9009,
     0x9879, 0x3002, 0x8BF7, 0x4F60, 0x4EE5, 0x89D2, 0x8272, 0x89C6, 0x89D2, 0xFF0C, 0x6839,
     0x636E, 0x73A9, 0x5BB6, 0x7684, 0x9009, 0x62E9, 0x81EA, 0x7136, 0x5730, 0x5EF6, 0x7EED,
     0x5BF9, 0x8BDD, 0x548C, 0x60C5, 0x8282, 0x3002, 0x56DE, 0x5E94, 0x4E2D, 0x5E94, 0x8BE5,
     0xFF1A, 0x31, 0x29, 0x8868, 0x73B0, 0x51FA, 0x89D2, 0x8272, 0x5BF9, 0x73A9, 0x5BB6,
     0x9009, 0x62E9, 0x7684, 0x60C5, 0x611F, 0x53CD, 0x5E94, 0xFF0C, 0x32, 0x29, 0x63A8,
     0x8FDB, 0x6545, 0x4E8B, 0x60C5, 0x8282, 0x53D1, 0x5C55, 0xFF0C, 0x33, 0x29, 0x5C55,
     0x793A, 0x89D2, 0x8272, 0x7684, 0x4E2A, 0x6027, 0x7279, 0x70B9, 0xFF0C, 0x34, 0x29,
     0x7559, 0x4E0B, 0x60AC, 0x5FF5, 0x4EE5, 0x4FBF, 0x6545, 0x4E8B, 0x7EE7, 0x7EED, 0x3002,
     0x4FDD, 0x6301, 0x53D9, 0x8FF0, 0x751F, 0x52A8, 0x4E14, 0x7B26, 0x5408, 0x89D2, 0x8272,
     0x8BBE, 0x5B9A, 0x3002]"

definition KEY_prompt :: ustr where \<comment> \<open>line 64: persona key "prompt"\<close>
  "KEY_prompt =
    [0x70, 0x72, 0x6F, 0x6D, 0x70, 0x74]"

definition NONE_MARKER :: ustr where \<comment> \<open>line 65: the persona id "[%None]"\<close>
  "NONE_MARKER =
    [0x5B, 0x25, 0x4E, 0x6F, 0x6E, 0x65, 0x5D]"

definition KEY_id :: ustr where \<comment> \<open>line 69: persona key "id"\<close>
  "KEY_id =
    [0x69, 0x64]"

definition MSG_ALREADY_RUNNING :: ustr where \<comment> \<open>line 85: the notice that a game is already running\<close>
  "MSG_ALREADY_RUNNING =
    [0x5DF2, 0x7ECF, 0x6709, 0x4E00, 0x4E2A, 0x8FDB, 0x884C, 0x4E2D, 0x7684, 0x20, 0x67, 0x61,
     0x6C, 0x20, 0x6E38, 0x620F, 0xFF0C, 0x8BF7, 0x5148, 0x4F7F, 0x7528, 0x20, 0x27, 0x67,
     0x61, 0x6C, 0x5173, 0x95ED, 0x27, 0x20, 0x7ED3, 0x675F, 0x5F53, 0x524D, 0x6E38, 0x620F]"

definition MSG_STARTED :: ustr where \<comment> \<open>line 94: the notice "gal" + "started"\<close>
  "MSG_STARTED =
    [0x67, 0x61, 0x6C, 0x5DF2, 0x542F, 0x52A8]"

definition MSG_NOTHING_RUNNING :: ustr where \<comment> \<open>line 108: the notice that no game is running\<close>
  "MSG_NOTHING_RUNNING =
    [0x5F53, 0x524D, 0x6CA1, 0x6709, 0x8FDB, 0x884C, 0x4E2D, 0x7684, 0x20, 0x67, 0x61, 0x6C,
     0x20, 0x6E38, 0x620F]"

definition MSG_STOPPED :: ustr where \<comment> \<open>line 114: the notice "gal" + "stopped"\<close>
  "MSG_STOPPED =
    [0x67, 0x61, 0x6C, 0x5DF2, 0x5173, 0x95ED]"

definition LABEL_A :: ustr where \<comment> \<open>line 127: "A"\<close>
  "LABEL_A =
    [0x41]"

definition LABEL_B :: ustr where \<comment> \<open>line 127: "B"\<close>
  "LABEL_B =
    [0x42]"

definition LABEL_C :: ustr where \<comment> \<open>line 127: "C"\<close>
  "LABEL_C =
    [0x43]"

definition CMD_START_UPPER :: ustr where \<comment> \<open>line 133: the uppercased start command, "GAL" + U+542F U+52A8\<close>
  "CMD_START_UPPER =
    [0x47, 0x41, 0x4C, 0x542F, 0x52A8]"

definition CMD_STOP_UPPER :: ustr where \<comment> \<open>line 133: the uppercased stop command, "GAL" + U+5173 U+95ED\<close>
  "CMD_STOP_UPPER =
    [0x47, 0x41, 0x4C, 0x5173, 0x95ED]"

definition MSG_NO_CONVERSATION :: ustr where \<comment> \<open>line 150: the notice that the conversation cannot be obtained\<close>
  "MSG_NO_CONVERSATION =
    [0x65E0, 0x6CD5, 0x83B7, 0x53D6, 0x5BF9, 0x8BDD, 0xFF0C, 0x8BF7, 0x91CD, 0x65B0, 0x5F00,
     0x59CB, 0x6E38, 0x620F]"

definition SCENE_SYSTEM_PROMPT :: ustr where \<comment> \<open>line 159: generic system prompt of the opening scene\<close>
  "SCENE_SYSTEM_PROMPT =
    [0x4F60, 0x662F, 0x4E00, 0x4E2A, 0x89C6, 0x89C9, 0x5C0F, 0x8BF4, 0x6E38, 0x620F, 0x5F15,
     0x64CE, 0xFF0C, 0x80FD, 0x751F, 0x6210, 0x4F18, 0x8D28, 0x7684, 0x47, 0x61, 0x6C, 0x67,
     0x61, 0x6D, 0x65, 0x5267, 0x60C5, 0x548C, 0x9009, 0x9879]"

definition FALLBACK_SCENE :: ustr where \<comment> \<open>line 171: scene text of a response without completion text\<close>
  "FALLBACK_SCENE =
    [0x6B22, 0x8FCE, 0x6765, 0x5230, 0x6E38, 0x620F, 0x4E16, 0x754C]"

definition ERR_SCENE :: ustr where \<comment> \<open>line 187: prefix of the scene failure notice\<close>
  "ERR_SCENE =
    [0x751F, 0x6210, 0x573A, 0x666F, 0x65F6, 0x51FA, 0x9519, 0x3A, 0x20]"

definition FIXED_SYSTEM_PROMPT :: ustr where \<comment> \<open>line 206: the fixed system prompt of option generation\<close>
  "FIXED_SYSTEM_PROMPT =
    [0x4F60, 0x662F, 0x4E00, 0x4E2A, 0x89C6, 0x89C9, 0x5C0F, 0x8BF4, 0x6E38, 0x620F, 0x5F15,
     0x64CE, 0xFF0C, 0x8D1F, 0x8D23, 0x751F, 0x6210, 0x73A9, 0x5BB6, 0x53EF, 0x4EE5, 0x9009,
     0x62E9, 0x7684, 0x9009, 0x9879]"

definition FALLBACK_A :: ustr where \<comment> \<open>line 217: option A of a response without completion text\<close>
  "FALLBACK_A =
    [0x41, 0x20, 0x2D, 0x20, 0x6E29, 0x67D4, 0x5FAE, 0x7B11]"

definition FALLBACK_B :: ustr where \<comment> \<open>line 228: option B of a response without completion text\<close>
  "FALLBACK_B =
    [0x42, 0x20, 0x2D, 0x20, 0x6311, 0x9017, 0x4E00, 0x7B11]"

definition FALLBACK_C :: ustr where \<comment> \<open>line 239: option C of a response without completion text\<close>
  "FALLBACK_C =
    [0x43, 0x20, 0x2D, 0x20, 0x4FDD, 0x6301, 0x8DDD, 0x79BB]"

definition OPTIONS_HEADER :: ustr where \<comment> \<open>line 246: head of the options summary, ending in a newline\<close>
  "OPTIONS_HEADER =
    [0x63D0, 0x4F9B, 0x7684, 0x9009, 0x9879, 0xFF1A, 0xA]"

definition NEWLINE :: ustr where \<comment> \<open>line 246: "\\n"\<close>
  "NEWLINE =
    [0xA]"

definition ERR_OPTIONS :: ustr where \<comment> \<open>line 252: prefix of the option failure notice\<close>
  "ERR_OPTIONS =
    [0x751F, 0x6210, 0x9009, 0x9879, 0x65F6, 0x51FA, 0x9519, 0x3A, 0x20]"

definition MSG_INVALID_CHOICE :: ustr where \<comment> \<open>line 265: the notice that the choice was not recognised\<close>
  "MSG_INVALID_CHOICE =
    [0x65E0, 0x6CD5, 0x8BC6, 0x522B, 0x60A8, 0x7684, 0x9009, 0x62E9, 0xFF0C, 0x8BF7, 0x91CD,
     0x65B0, 0x9009, 0x62E9, 0x41, 0x3001, 0x42, 0x6216, 0x43]"

definition USER_CHOSE :: ustr where \<comment> \<open>line 271: head of the user-choice history entry\<close>
  "USER_CHOSE =
    [0x7528, 0x6237, 0x9009, 0x62E9, 0x4E86, 0xFF1A]"

definition ERR_CHOICE :: ustr where \<comment> \<open>line 281: prefix of the choice failure notice\<close>
  "ERR_CHOICE =
    [0x5904, 0x7406, 0x9009, 0x62E9, 0x65F6, 0x51FA, 0x9519, 0x3A, 0x20]"

definition STORY_SYSTEM_PROMPT :: ustr where \<comment> \<open>line 304: generic system prompt of the continuation\<close>
  "STORY_SYSTEM_PROMPT =
    [0x4F60, 0x662F, 0x4E00, 0x4E2A, 0x89C6, 0x89C9, 0x5C0F, 0x8BF4, 0x6E38, 0x620F, 0x5F15,
     0x64CE, 0xFF0C, 0x80FD, 0x6839, 0x636E, 0x7528, 0x6237, 0x9009, 0x62E9, 0x751F, 0x6210,
     0x4F18, 0x8D28, 0x7684, 0x47, 0x61, 0x6C, 0x67, 0x61, 0x6D, 0x65, 0x5267, 0x60C5]"

definition PLAYER_CHOICE :: ustr where \<comment> \<open>line 310: newline + "player choice: ", between template and chosen text\<close>
  "PLAYER_CHOICE =
    [0xA, 0x73A9, 0x5BB6, 0x9009, 0x62E9, 0x3A, 0x20]"

definition FALLBACK_STORY :: ustr where \<comment> \<open>line 318: story text of a response without completion text\<close>
  "FALLBACK_STORY =
    [0x6545, 0x4E8B, 0x7EE7, 0x7EED, 0x2E, 0x2E, 0x2E]"

definition ERR_STORY :: ustr where \<comment> \<open>line 336: prefix of the continuation failure notice\<close>
  "ERR_STORY =
    [0x751F, 0x6210, 0x6545, 0x4E8B, 0x8FDB, 0x5C55, 0x65F6, 0x51FA, 0x9519, 0x3A, 0x20]"

definition NO_PROVIDER_ERROR :: ustr where
  \<comment> \<open>str of the AttributeError of text_chat on None\<close>
  "NO_PROVIDER_ERROR =
    [0x27, 0x4E, 0x6F, 0x6E, 0x65, 0x54, 0x79, 0x70, 0x65, 0x27, 0x20, 0x6F, 0x62, 0x6A, 0x65,
     0x63, 0x74, 0x20, 0x68, 0x61, 0x73, 0x20, 0x6E, 0x6F, 0x20, 0x61, 0x74, 0x74, 0x72, 0x69,
     0x62, 0x75, 0x74, 0x65, 0x20, 0x27, 0x74, 0x65, 0x78, 0x74, 0x5F, 0x63, 0x68, 0x61, 0x74,
     0x27]"
section \<open>Helpers\<close>

text \<open>\<open>d.get(k, default)\<close> on a dict.\<close>

definition dict_get :: "('k \<rightharpoonup> 'v) \<Rightarrow> 'k \<Rightarrow> 'v \<Rightarrow> 'v" where
  "dict_get m k d = (case m k of None \<Rightarrow> d | Some v \<Rightarrow> v)"

text \<open>
  \<open>str.strip()\<close> removes, at both ends, the code points for which \<open>str.isspace\<close> holds.
\<close>

definition py_isspace :: "nat \<Rightarrow> bool" where
  "py_isspace c \<longleftrightarrow>
     (0x9 \<le> c \<and> c \<le> 0xD) \<or> (0x1C \<le> c \<and> c \<le> 0x20) \<or> c = 0x85 \<or> c = 0xA0 \<or> c = 0x1680
     \<or> (0x2000 \<le> c \<and> c \<le> 0x200A) \<or> c = 0x2028 \<or> c = 0x2029 \<or> c = 0x202F \<or> c = 0x205F
     \<or> c = 0x3000"

definition py_strip :: "ustr \<Rightarrow> ustr" where
  "py_strip s = rev (dropWhile py_isspace (rev (dropWhile py_isspace s)))"

text \<open>
  \<open>x.completion_text if hasattr(x, 'completion_text') else fallback\<close> (lines 171, 217, 228,
  239, 318).
\<close>

definition text_or :: "llm_response \<Rightarrow> ustr \<Rightarrow> ustr" where
  "text_or resp fallback = (case completion_text resp of Some t \<Rightarrow> t | None \<Rightarrow> fallback)"

text \<open>\<open>yield event.plain_result(t)\<close>.\<close>

definition emit :: "ustr \<Rightarrow> 'w run \<Rightarrow> 'w run" where
  "emit t r = r\<lparr>emitted := emitted r @ [t]\<rparr>"

text \<open>
  \<open>session_id in self.game_sessions and self.game_sessions[session_id].get("game_active", False)\<close>
\<close>

definition session_active :: "(ustr \<rightharpoonup> session) \<Rightarrow> ustr \<Rightarrow> bool" where
  "session_active gs sid = (case gs sid of None \<Rightarrow> False | Some s \<Rightarrow> game_active s)"

text \<open>
  \<open>self.game_sessions[session_id]["llm_context"].append(m)\<close>; a missing session id is a
  \<open>KeyError\<close>.
\<close>

definition append_context :: "'w host \<Rightarrow> ustr \<Rightarrow> message \<Rightarrow> 'w run \<Rightarrow> unit outcome \<times> 'w run" where
  "append_context h sid m r =
     (case game_sessions r sid of
        None \<Rightarrow> (Raised (py_repr h sid), r)
      | Some s \<Rightarrow>
          (Returned (),
           r\<lparr>game_sessions := (game_sessions r)(sid \<mapsto> s\<lparr>llm_context := llm_context s @ [m]\<rparr>)\<rparr>))"

text \<open>
  The two awaited calls every generation phase starts with (lines 145-146, 197-198, 293-294):
  \<open>get_curr_conversation_id\<close>, then \<open>get_conversation\<close>.
\<close>

definition current_conversation :: "'w host \<Rightarrow> ustr \<Rightarrow> 'w run \<Rightarrow> conversation option outcome \<times> 'w run" where
  "current_conversation h sid r =
     (case get_curr_conversation_id h (world r) sid of
        (Raised e, w1) \<Rightarrow> (Raised e, r\<lparr>world := w1\<rparr>)
      | (Returned cid, w1) \<Rightarrow>
          (case get_conversation h w1 sid cid of
             (res, w2) \<Rightarrow> (res, r\<lparr>world := w2\<rparr>)))"

text \<open>
  The expression \<open>await self.context.get_using_provider().text_chat(prompt=p,
  system_prompt=sp, contexts=self.game_sessions[session_id]["llm_context"])\<close>: the provider is
  fetched (\<open>None\<close> has no \<open>text_chat\<close>), then the arguments are evaluated (a missing session
  id is a \<open>KeyError\<close>), then the call is made and recorded in \<open>requests\<close>.
\<close>

definition provider_chat :: "'w host \<Rightarrow> ustr \<Rightarrow> ustr \<Rightarrow> ustr \<Rightarrow> 'w run \<Rightarrow> llm_response outcome \<times> 'w run" where
  "provider_chat h sid p sp r =
     (case get_using_provider h (world r) of
        Raised e \<Rightarrow> (Raised e, r)
      | Returned False \<Rightarrow> (Raised NO_PROVIDER_ERROR, r)
      | Returned True \<Rightarrow>
          (case game_sessions r sid of
             None \<Rightarrow> (Raised (py_repr h sid), r)
           | Some s \<Rightarrow>
               (let q = \<lparr>prompt = p, system_prompt = sp, contexts = llm_context s\<rparr>
                in case text_chat h (world r) q of
                     (res, w1) \<Rightarrow> (res, r\<lparr>requests := requests r @ [q], world := w1\<rparr>))))"

section \<open>Plugin initialisation and persona lookup\<close>

text \<open>\<open>__init__\<close>, lines 38-53: each template is the configured text or the built-in one.\<close>

definition init_prompt_templates :: "(ustr \<rightharpoonup> ustr) \<Rightarrow> prompt_templates" where
  "init_prompt_templates config =
     \<lparr>SYSTEM_SCENE_PROMPT = dict_get config KEY_scene_prompt DEFAULT_SCENE_PROMPT,
      OPTION_A_PROMPT = dict_get config KEY_option_a_prompt DEFAULT_OPTION_A_PROMPT,
      OPTION_B_PROMPT = dict_get config KEY_option_b_prompt DEFAULT_OPTION_B_PROMPT,
      OPTION_C_PROMPT = dict_get config KEY_option_c_prompt DEFAULT_OPTION_C_PROMPT,
      SYSTEM_RESPONSE_PROMPT = dict_get config KEY_response_prompt DEFAULT_RESPONSE_PROMPT\<rparr>"

text \<open>
  The loop of \<open>_get_system_prompt\<close> (lines 68-70): the first persona whose \<open>id\<close> is the
  given one decides; \<open>None\<close> when the loop ends without returning.
\<close>

fun find_persona :: "(ustr \<times> ustr) list list \<Rightarrow> ustr \<Rightarrow> ustr \<Rightarrow> ustr option" where
  "find_persona [] pid default_prompt = None"
| "find_persona (p # ps) pid default_prompt =
     (if map_of p KEY_id = Some pid then Some (dict_get (map_of p) KEY_prompt default_prompt)
      else find_persona ps pid default_prompt)"

text \<open>
  \<open>_get_system_prompt\<close> (lines 57-74). An exception inside the \<open>try\<close> is logged and the
  default is returned; an empty dict is false in \<open>if default_persona\<close>.
\<close>

definition get_system_prompt :: "'w host \<Rightarrow> 'w \<Rightarrow> ustr option \<Rightarrow> ustr \<Rightarrow> ustr" where
  "get_system_prompt h w pid default_prompt =
     (case pid of
        None \<Rightarrow>
          (case selected_default_persona h w of
             Raised e \<Rightarrow> default_prompt
           | Returned None \<Rightarrow> default_prompt
           | Returned (Some d) \<Rightarrow>
               if d \<noteq> [] then dict_get (map_of d) KEY_prompt default_prompt else default_prompt)
      | Some p \<Rightarrow>
          if p \<noteq> NONE_MARKER then
            (case personas h w of
               Raised e \<Rightarrow> default_prompt
             | Returned ps \<Rightarrow>
                 (case find_persona ps p default_prompt of
                    Some t \<Rightarrow> t
                  | None \<Rightarrow> default_prompt))
          else default_prompt)"

text \<open>\<open>conversation.persona_id if hasattr(conversation, 'persona_id') else None\<close>\<close>

definition persona_of :: "conversation \<Rightarrow> ustr option" where
  "persona_of c = (case persona_id c of None \<Rightarrow> None | Some p \<Rightarrow> p)"

section \<open>The narrative engine\<close>

text \<open>
  Each generator of main.py becomes a function from the run before it to the run after it.
  The body of a \<open>try\<close> returns, beside the run, whether it ended normally or by an
  exception; what was yielded and written before the exception stays in the run, and the
  \<open>except\<close> clause yields one more text built from \<open>str(e)\<close>.
\<close>

subsection \<open>\<open>_generate_options\<close> (lines 189-252)\<close>

text \<open>
  One of the three blocks of lines 210-241: the provider call with the fixed system prompt,
  the choice between the completion text and the built-in text, the store under the label
  and the yield.
\<close>

definition option_call :: "'w host \<Rightarrow> ustr \<Rightarrow> ustr \<Rightarrow> ustr \<Rightarrow> ustr \<Rightarrow> 'w run \<Rightarrow> ustr outcome \<times> 'w run" where
  "option_call h sid label prompt_text fallback r =
     (case provider_chat h sid prompt_text FIXED_SYSTEM_PROMPT r of
        (Raised e, r1) \<Rightarrow> (Raised e, r1)
      | (Returned resp, r1) \<Rightarrow>
          (let option_text = text_or resp fallback
           in case game_sessions r1 sid of
                None \<Rightarrow> (Raised (py_repr h sid), r1)
              | Some s \<Rightarrow>
                  (Returned option_text,
                   emit option_text
                     (r1\<lparr>game_sessions := (game_sessions r1)
                          (sid \<mapsto> s\<lparr>last_options := (last_options s)(label \<mapsto> option_text)\<rparr>)\<rparr>))))"

text \<open>The content of the history entry of lines 244-247.\<close>

definition options_summary :: "ustr \<Rightarrow> ustr \<Rightarrow> ustr \<Rightarrow> ustr" where
  "options_summary a b c = OPTIONS_HEADER @ a @ NEWLINE @ b @ NEWLINE @ c"

definition generate_options_body :: "'w host \<Rightarrow> prompt_templates \<Rightarrow> event \<Rightarrow> 'w run \<Rightarrow> unit outcome \<times> 'w run" where
  "generate_options_body h tpl ev r =
     (let sid = unified_msg_origin ev
      in case current_conversation h sid r of
           (Raised e, r1) \<Rightarrow> (Raised e, r1)
         | (Returned None, r1) \<Rightarrow> (Returned (), emit MSG_NO_CONVERSATION r1)
         | (Returned (Some conv), r1) \<Rightarrow>
      (case game_sessions r1 sid of
         None \<Rightarrow> (Raised (py_repr h sid), r1)
       | Some s \<Rightarrow>
      (let r2 = r1\<lparr>game_sessions := (game_sessions r1)(sid \<mapsto> s\<lparr>last_options := Map.empty\<rparr>)\<rparr>
       in case option_call h sid LABEL_A (OPTION_A_PROMPT tpl) FALLBACK_A r2 of
            (Raised e, r3) \<Rightarrow> (Raised e, r3)
          | (Returned option_a_text, r3) \<Rightarrow>
      (case option_call h sid LABEL_B (OPTION_B_PROMPT tpl) FALLBACK_B r3 of
         (Raised e, r4) \<Rightarrow> (Raised e, r4)
       | (Returned option_b_text, r4) \<Rightarrow>
      (case option_call h sid LABEL_C (OPTION_C_PROMPT tpl) FALLBACK_C r4 of
         (Raised e, r5) \<Rightarrow> (Raised e, r5)
       | (Returned option_c_text, r5) \<Rightarrow>
           append_context h sid
             \<lparr>role = Assistant,
              content = options_summary option_a_text option_b_text option_c_text\<rparr> r5)))))"

definition generate_options :: "'w host \<Rightarrow> prompt_templates \<Rightarrow> event \<Rightarrow> 'w run \<Rightarrow> 'w run" where
  "generate_options h tpl ev r =
     (case generate_options_body h tpl ev r of
        (Raised e, r1) \<Rightarrow> emit (ERR_OPTIONS @ e) r1
      | (Returned u, r1) \<Rightarrow> r1)"

subsection \<open>\<open>_generate_story_progression\<close> (lines 283-336)\<close>

definition generate_story_progression_body ::
  "'w host \<Rightarrow> prompt_templates \<Rightarrow> event \<Rightarrow> ustr \<Rightarrow> ustr \<Rightarrow> 'w run \<Rightarrow> unit outcome \<times> 'w run" where
  "generate_story_progression_body h tpl ev choice chosen_option_full_text r =
     (let sid = unified_msg_origin ev
      in case current_conversation h sid r of
           (Raised e, r1) \<Rightarrow> (Raised e, r1)
         | (Returned None, r1) \<Rightarrow> (Returned (), emit MSG_NO_CONVERSATION r1)
         | (Returned (Some conv), r1) \<Rightarrow>
      (let sp = get_system_prompt h (world r1) (persona_of conv) STORY_SYSTEM_PROMPT;
           p = SYSTEM_RESPONSE_PROMPT tpl @ PLAYER_CHOICE @ chosen_option_full_text
       in case provider_chat h sid p sp r1 of
            (Raised e, r2) \<Rightarrow> (Raised e, r2)
          | (Returned resp, r2) \<Rightarrow>
      (let story_text = text_or resp FALLBACK_STORY
       in case append_context h sid \<lparr>role = Assistant, content = story_text\<rparr>
                 (emit story_text r2) of
            (Raised e, r3) \<Rightarrow> (Raised e, r3)
          | (Returned u, r3) \<Rightarrow> (Returned (), generate_options h tpl ev r3))))"

definition generate_story_progression ::
  "'w host \<Rightarrow> prompt_templates \<Rightarrow> event \<Rightarrow> ustr \<Rightarrow> ustr \<Rightarrow> 'w run \<Rightarrow> 'w run" where
  "generate_story_progression h tpl ev choice chosen_option_full_text r =
     (case generate_story_progression_body h tpl ev choice chosen_option_full_text r of
        (Raised e, r1) \<Rightarrow> emit (ERR_STORY @ e) r1
      | (Returned u, r1) \<Rightarrow> r1)"

subsection \<open>\<open>_process_user_choice\<close> (lines 254-281)\<close>

text \<open>
  \<open>last_options.get(choice)\<close> is \<open>None\<close> for a label without entry; \<open>not\<close> of it is also true
  for an entry holding the empty string.
\<close>

definition process_user_choice_body ::
  "'w host \<Rightarrow> prompt_templates \<Rightarrow> event \<Rightarrow> ustr \<Rightarrow> 'w run \<Rightarrow> unit outcome \<times> 'w run" where
  "process_user_choice_body h tpl ev choice r =
     (let sid = unified_msg_origin ev
      in case game_sessions r sid of
           None \<Rightarrow> (Raised (py_repr h sid), r)
         | Some s \<Rightarrow>
             (case last_options s choice of
                None \<Rightarrow> (Returned (), emit MSG_INVALID_CHOICE r)
              | Some chosen_option_full_text \<Rightarrow>
                  if chosen_option_full_text = [] then (Returned (), emit MSG_INVALID_CHOICE r)
                  else
                    (case append_context h sid
                            \<lparr>role = User, content = USER_CHOSE @ chosen_option_full_text\<rparr> r of
                       (Raised e, r1) \<Rightarrow> (Raised e, r1)
                     | (Returned u, r1) \<Rightarrow>
                         (Returned (),
                          generate_story_progression h tpl ev choice chosen_option_full_text r1))))"

definition process_user_choice :: "'w host \<Rightarrow> prompt_templates \<Rightarrow> event \<Rightarrow> ustr \<Rightarrow> 'w run \<Rightarrow> 'w run" where
  "process_user_choice h tpl ev choice r =
     (case process_user_choice_body h tpl ev choice r of
        (Raised e, r1) \<Rightarrow> emit (ERR_CHOICE @ e) r1
      | (Returned u, r1) \<Rightarrow> r1)"

subsection \<open>\<open>_generate_initial_scene\<close> (lines 137-187)\<close>

definition generate_initial_scene_body :: "'w host \<Rightarrow> prompt_templates \<Rightarrow> event \<Rightarrow> 'w run \<Rightarrow> unit outcome \<times> 'w run" where
  "generate_initial_scene_body h tpl ev r =
     (let sid = unified_msg_origin ev
      in case current_conversation h sid r of
           (Raised e, r1) \<Rightarrow> (Raised e, r1)
         | (Returned None, r1) \<Rightarrow> (Returned (), emit MSG_NO_CONVERSATION r1)
         | (Returned (Some conv), r1) \<Rightarrow>
      (case get_llm_tool_manager h (world r1) of
         Raised e \<Rightarrow> (Raised e, r1)
       | Returned func_tools_mgr \<Rightarrow>
      (let sp = get_system_prompt h (world r1) (persona_of conv) SCENE_SYSTEM_PROMPT;
           system_scene_prompt_text = SYSTEM_SCENE_PROMPT tpl
       in case provider_chat h sid system_scene_prompt_text sp r1 of
            (Raised e, r2) \<Rightarrow> (Raised e, r2)
          | (Returned resp, r2) \<Rightarrow>
      (let scene_text = text_or resp FALLBACK_SCENE
       in case append_context h sid \<lparr>role = System, content = system_scene_prompt_text\<rparr>
                 (emit scene_text r2) of
            (Raised e, r3) \<Rightarrow> (Raised e, r3)
          | (Returned u, r3) \<Rightarrow>
      (case append_context h sid \<lparr>role = Assistant, content = scene_text\<rparr> r3 of
         (Raised e, r4) \<Rightarrow> (Raised e, r4)
       | (Returned u, r4) \<Rightarrow> (Returned (), generate_options h tpl ev r4))))))"

definition generate_initial_scene :: "'w host \<Rightarrow> prompt_templates \<Rightarrow> event \<Rightarrow> 'w run \<Rightarrow> 'w run" where
  "generate_initial_scene h tpl ev r =
     (case generate_initial_scene_body h tpl ev r of
        (Raised e, r1) \<Rightarrow> emit (ERR_SCENE @ e) r1
      | (Returned u, r1) \<Rightarrow> r1)"

section \<open>The handlers\<close>

text \<open>\<open>handle_start_galgame\<close> (lines 76-97).\<close>

definition handle_start_galgame :: "'w host \<Rightarrow> prompt_templates \<Rightarrow> event \<Rightarrow> 'w run \<Rightarrow> 'w run" where
  "handle_start_galgame h tpl ev r =
     (let session_id = unified_msg_origin ev
      in if session_active (game_sessions r) session_id then emit MSG_ALREADY_RUNNING r
         else
           generate_initial_scene h tpl ev
             (emit MSG_STARTED
                (r\<lparr>game_sessions := (game_sessions r)
                     (session_id \<mapsto>
                        \<lparr>game_active = True, llm_context = [], last_options = Map.empty\<rparr>)\<rparr>)))"

text \<open>\<open>handle_stop_galgame\<close> (lines 99-114).\<close>

definition handle_stop_galgame :: "event \<Rightarrow> 'w run \<Rightarrow> 'w run" where
  "handle_stop_galgame ev r =
     (let session_id = unified_msg_origin ev
      in case game_sessions r session_id of
           None \<Rightarrow> emit MSG_NOTHING_RUNNING r
         | Some s \<Rightarrow>
             if \<not> game_active s then emit MSG_NOTHING_RUNNING r
             else
               emit MSG_STOPPED
                 (r\<lparr>game_sessions := (game_sessions r)
                      (session_id \<mapsto> s\<lparr>game_active := False, llm_context := []\<rparr>)\<rparr>))"

text \<open>
  \<open>handle_game_input\<close> (lines 116-135). It returns the event with its marks beside the run.
\<close>

definition handle_game_input :: "'w host \<Rightarrow> prompt_templates \<Rightarrow> event \<Rightarrow> 'w run \<Rightarrow> event \<times> 'w run" where
  "handle_game_input h tpl ev r =
     (let session_id = unified_msg_origin ev
      in if session_active (game_sessions r) session_id then
           (let user_input = py_upper h (py_strip (message_str ev))
            in if user_input \<in> set [LABEL_A, LABEL_B, LABEL_C] then
                 (ev\<lparr>call_llm := False\<rparr>,
                  process_user_choice h tpl (ev\<lparr>call_llm := False\<rparr>) user_input r)
               else if user_input \<notin> set [CMD_START_UPPER, CMD_STOP_UPPER] then
                 (ev\<lparr>is_stopped := True\<rparr>, r)
               else (ev, r))
         else (ev, r))"

text \<open>\<open>terminate\<close> (lines 338-343).\<close>

definition terminate :: "'w run \<Rightarrow> 'w run" where
  "terminate r = r\<lparr>game_sessions := Map.empty\<rparr>"

section \<open>A concrete host\<close>

text \<open>
  A host for evaluating the model: the conversation is always found and has no persona, a
  provider is always selected, and the \<open>n\<close>-th call of \<open>text_chat\<close> (counted by the host
  state) answers \<open>replies n\<close>. \<open>str.upper\<close> is given on ASCII letters, \<open>repr\<close> as quoting.
\<close>

definition ascii_upper :: "ustr \<Rightarrow> ustr" where
  "ascii_upper s = map (\<lambda>c. if 0x61 \<le> c \<and> c \<le> 0x7A then c - 0x20 else c) s"

definition scripted_host :: "(nat \<Rightarrow> llm_response outcome) \<Rightarrow> nat host" where
  "scripted_host replies =
     \<lparr>get_curr_conversation_id = (\<lambda>w sid. (Returned None, w)),
      get_conversation = (\<lambda>w sid cid. (Returned (Some \<lparr>persona_id = None\<rparr>), w)),
      get_llm_tool_manager = (\<lambda>w. Returned ()),
      selected_default_persona = (\<lambda>w. Returned None),
      personas = (\<lambda>w. Returned []),
      get_using_provider = (\<lambda>w. Returned True),
      text_chat = (\<lambda>w q. (replies w, w + 1)),
      py_upper = ascii_upper,
      py_repr = (\<lambda>s. [0x27] @ s @ [0x27])\<rparr>"

text \<open>Every call raises an error whose text is \<open>"boom"\<close>.\<close>

definition BOOM :: ustr where
  "BOOM = [0x62, 0x6F, 0x6F, 0x6D]"

definition replies_raise :: "nat \<Rightarrow> llm_response outcome" where
  "replies_raise n = Raised BOOM"

text \<open>
  Every call returns: the \<open>n\<close>-th completion text is \<open>"t"\<close> followed by the digit \<open>n\<close>, except
  that call 2 returns a response without completion text.
\<close>

definition replies_return :: "nat \<Rightarrow> llm_response outcome" where
  "replies_return n =
     (if n = 2 then Returned \<lparr>completion_text = None\<rparr>
      else Returned \<lparr>completion_text = Some [0x74, 0x30 + n]\<rparr>)"


text \<open>
  An event of session \<open>"s"\<close> with the given text, templates \<open>"S"\<close>, \<open>"a"\<close>, \<open>"b"\<close>, \<open>"c"\<close>, \<open>"R"\<close>,
  and runs that start with nothing yielded: without session, with a session just started,
  and with a session that waits for a choice between the options \<open>"A1"\<close> and \<open>"B1"\<close>.
\<close>

definition demo_event :: "ustr \<Rightarrow> event" where
  "demo_event text =
     \<lparr>unified_msg_origin = [0x73], message_str = text, call_llm = True, is_stopped = False\<rparr>"

definition demo_templates :: prompt_templates where
  "demo_templates =
     \<lparr>SYSTEM_SCENE_PROMPT = [0x53], OPTION_A_PROMPT = [0x61], OPTION_B_PROMPT = [0x62],
      OPTION_C_PROMPT = [0x63], SYSTEM_RESPONSE_PROMPT = [0x52]\<rparr>"

definition fresh_session :: session where
  "fresh_session = \<lparr>game_active = True, llm_context = [], last_options = Map.empty\<rparr>"

definition waiting_session :: session where
  "waiting_session =
     \<lparr>game_active = True,
      llm_context = [\<lparr>role = Assistant, content = [0x68]\<rparr>],
      last_options = [LABEL_A \<mapsto> [0x41, 0x31], LABEL_B \<mapsto> [0x42, 0x31]]\<rparr>"

definition demo_run :: "session option \<Rightarrow> nat run" where
  "demo_run s =
     \<lparr>emitted = [], requests = [], game_sessions = Map.empty([0x73] := s), world = 0\<rparr>"

section \<open>Basic facts about the steps\<close>

lemma emit_simps [simp]:
  "emitted (emit t r) = emitted r @ [t]"
  "requests (emit t r) = requests r"
  "game_sessions (emit t r) = game_sessions r"
  "world (emit t r) = world r"
  by (simp_all add: emit_def)

lemma current_conversation_eq:
  assumes "get_curr_conversation_id h (world r) sid = (Returned cid, w1)"
    and "get_conversation h w1 sid cid = (res, w2)"
  shows "current_conversation h sid r = (res, r\<lparr>world := w2\<rparr>)"
  using assms by (simp add: current_conversation_def)

section \<open>Start and stop\<close>

text \<open>
  Claim C8. A start command for a session that is already active yields exactly one text,
  the "already running" notice, and leaves \<open>game_sessions\<close> (so the history and the last
  options of that session) as it was; no provider request is made.
\<close>

theorem start_when_active:
  assumes "session_active (game_sessions r) (unified_msg_origin ev)"
  shows "emitted (handle_start_galgame h tpl ev r) = emitted r @ [MSG_ALREADY_RUNNING]
       \<and> game_sessions (handle_start_galgame h tpl ev r) = game_sessions r
       \<and> requests (handle_start_galgame h tpl ev r) = requests r
       \<and> world (handle_start_galgame h tpl ev r) = world r"
  using assms by (simp add: handle_start_galgame_def)

theorem start_when_active_witness:
  "session_active (game_sessions (demo_run (Some waiting_session)))
     (unified_msg_origin (demo_event []))
   \<and> emitted (handle_start_galgame (scripted_host replies_return) demo_templates (demo_event [])
        (demo_run (Some waiting_session))) = [MSG_ALREADY_RUNNING]
   \<and> game_sessions (handle_start_galgame (scripted_host replies_return) demo_templates
        (demo_event []) (demo_run (Some waiting_session))) [0x73] = Some waiting_session"
proof -
  have active: "session_active (game_sessions (demo_run (Some waiting_session)))
      (unified_msg_origin (demo_event []))"
    by (simp add: session_active_def demo_run_def demo_event_def waiting_session_def)
  from start_when_active [OF active, of "scripted_host replies_return" demo_templates] active
  show ?thesis by (simp add: demo_run_def)
qed

text \<open>
  Claim C6. Stopping an active session yields the confirmation, clears \<open>game_active\<close> and
  empties the history of that session and touches nothing else. Stopping when the session
  is absent or inactive yields exactly one "nothing running" notice and leaves
  \<open>game_sessions\<close> as it was. A start after the stop runs exactly as the same start on the
  store in which the session id was never present: both overwrite the entry with a session
  that is active, has an empty history and no options, yield the start notice and generate
  the opening scene from there.
\<close>

theorem stop_and_restart:
  assumes "game_sessions r1 (unified_msg_origin ev1) = Some s1" and "game_active s1"
    and "\<not> session_active (game_sessions r2) (unified_msg_origin ev2)"
    and "unified_msg_origin ev3 = unified_msg_origin ev1"
  shows "emitted (handle_stop_galgame ev1 r1) = emitted r1 @ [MSG_STOPPED]
       \<and> game_sessions (handle_stop_galgame ev1 r1) =
           (game_sessions r1)
             (unified_msg_origin ev1 \<mapsto> s1\<lparr>game_active := False, llm_context := []\<rparr>)
       \<and> emitted (handle_stop_galgame ev2 r2) = emitted r2 @ [MSG_NOTHING_RUNNING]
       \<and> game_sessions (handle_stop_galgame ev2 r2) = game_sessions r2
       \<and> handle_start_galgame h tpl ev3 (handle_stop_galgame ev1 r1) =
           handle_start_galgame h tpl ev3
             ((handle_stop_galgame ev1 r1)
                \<lparr>game_sessions := (game_sessions (handle_stop_galgame ev1 r1))
                     (unified_msg_origin ev1 := None)\<rparr>)
       \<and> handle_start_galgame h tpl ev3 (handle_stop_galgame ev1 r1) =
           generate_initial_scene h tpl ev3
             (emit MSG_STARTED
                ((handle_stop_galgame ev1 r1)
                   \<lparr>game_sessions := (game_sessions r1)
                        (unified_msg_origin ev1 \<mapsto>
                           \<lparr>game_active = True, llm_context = [], last_options = Map.empty\<rparr>)\<rparr>))"
proof -
  have stopped: "handle_stop_galgame ev1 r1 =
      emit MSG_STOPPED
        (r1\<lparr>game_sessions := (game_sessions r1)
              (unified_msg_origin ev1 \<mapsto> s1\<lparr>game_active := False, llm_context := []\<rparr>)\<rparr>)"
    using assms(1,2) by (simp add: handle_stop_galgame_def)
  have idle: "handle_stop_galgame ev2 r2 = emit MSG_NOTHING_RUNNING r2"
    using assms(3) by (simp add: handle_stop_galgame_def session_active_def split: option.splits)
  show ?thesis
    using assms(4)
    by (simp add: stopped idle handle_start_galgame_def session_active_def emit_def)
qed

theorem stop_and_restart_witness:
  "game_sessions (demo_run (Some waiting_session)) (unified_msg_origin (demo_event [])) =
     Some waiting_session
   \<and> game_active waiting_session
   \<and> \<not> session_active (game_sessions (demo_run None)) (unified_msg_origin (demo_event []))
   \<and> emitted (handle_stop_galgame (demo_event []) (demo_run (Some waiting_session))) =
       [MSG_STOPPED]
   \<and> game_sessions (handle_stop_galgame (demo_event []) (demo_run (Some waiting_session)))
       [0x73] = Some (waiting_session\<lparr>game_active := False, llm_context := []\<rparr>)
   \<and> emitted (handle_stop_galgame (demo_event []) (demo_run None)) = [MSG_NOTHING_RUNNING]
   \<and> game_sessions (handle_stop_galgame (demo_event []) (demo_run None)) [0x73] = None"
proof -
  have present: "game_sessions (demo_run (Some waiting_session))
      (unified_msg_origin (demo_event [])) = Some waiting_session"
    by (simp add: demo_run_def demo_event_def)
  have active: "game_active waiting_session"
    by (simp add: waiting_session_def)
  have idle: "\<not> session_active (game_sessions (demo_run None))
      (unified_msg_origin (demo_event []))"
    by (simp add: session_active_def demo_run_def demo_event_def)
  have same: "unified_msg_origin (demo_event []) = unified_msg_origin (demo_event [])"
    by simp
  from stop_and_restart [OF present active idle same, of "scripted_host replies_return"
      demo_templates] present active idle
  show ?thesis by (simp add: demo_run_def demo_event_def)
qed

section \<open>Routing of inbound text\<close>

text \<open>
  Claim C7. While the session is active, a message whose stripped and uppercased text is
  none of A, B, C and neither uppercased command yields nothing and changes nothing in the
  run (no text, no request, \<open>game_sessions\<close> as before); the event is marked as stopped.
\<close>

theorem game_input_other_text:
  assumes "session_active (game_sessions r) (unified_msg_origin ev)"
    and "py_upper h (py_strip (message_str ev))
           \<notin> {LABEL_A, LABEL_B, LABEL_C, CMD_START_UPPER, CMD_STOP_UPPER}"
  shows "handle_game_input h tpl ev r = (ev\<lparr>is_stopped := True\<rparr>, r)"
  using assms by (simp add: handle_game_input_def Let_def)

theorem game_input_other_text_witness:
  "session_active (game_sessions (demo_run (Some waiting_session)))
     (unified_msg_origin (demo_event [0x20, 0x64, 0xA]))
   \<and> py_upper (scripted_host replies_return) (py_strip (message_str (demo_event [0x20, 0x64, 0xA])))
       = [0x44]
   \<and> handle_game_input (scripted_host replies_return) demo_templates
        (demo_event [0x20, 0x64, 0xA]) (demo_run (Some waiting_session)) =
       ((demo_event [0x20, 0x64, 0xA])\<lparr>is_stopped := True\<rparr>, demo_run (Some waiting_session))"
proof -
  have active: "session_active (game_sessions (demo_run (Some waiting_session)))
      (unified_msg_origin (demo_event [0x20, 0x64, 0xA]))"
    by (simp add: session_active_def demo_run_def demo_event_def waiting_session_def)
  have norm: "py_upper (scripted_host replies_return)
      (py_strip (message_str (demo_event [0x20, 0x64, 0xA]))) = [0x44]"
    by (simp add: scripted_host_def ascii_upper_def py_strip_def py_isspace_def demo_event_def)
  have other: "py_upper (scripted_host replies_return)
      (py_strip (message_str (demo_event [0x20, 0x64, 0xA])))
        \<notin> {LABEL_A, LABEL_B, LABEL_C, CMD_START_UPPER, CMD_STOP_UPPER}"
    unfolding norm
    by (simp add: LABEL_A_def LABEL_B_def LABEL_C_def CMD_START_UPPER_def CMD_STOP_UPPER_def)
  from game_input_other_text [OF active other, of demo_templates] active norm
  show ?thesis by simp
qed

section \<open>Choice resolution\<close>

text \<open>
  Claim C9. When the label has no entry in the last options of the session,
  \<open>_process_user_choice\<close> yields exactly one text, the error notice, and changes nothing
  else in the run: \<open>game_sessions\<close> (so the history) is as before and no request is made.
\<close>

theorem choice_without_entry:
  assumes "game_sessions r (unified_msg_origin ev) = Some s"
    and "last_options s choice = None"
  shows "emitted (process_user_choice h tpl ev choice r) = emitted r @ [MSG_INVALID_CHOICE]
       \<and> game_sessions (process_user_choice h tpl ev choice r) = game_sessions r
       \<and> requests (process_user_choice h tpl ev choice r) = requests r
       \<and> world (process_user_choice h tpl ev choice r) = world r"
  using assms by (simp add: process_user_choice_def process_user_choice_body_def)

theorem choice_without_entry_witness:
  "game_sessions (demo_run (Some waiting_session)) (unified_msg_origin (demo_event [0x43])) =
     Some waiting_session
   \<and> last_options waiting_session LABEL_C = None
   \<and> emitted (process_user_choice (scripted_host replies_return) demo_templates
        (demo_event [0x43]) LABEL_C (demo_run (Some waiting_session))) = [MSG_INVALID_CHOICE]
   \<and> game_sessions (process_user_choice (scripted_host replies_return) demo_templates
        (demo_event [0x43]) LABEL_C (demo_run (Some waiting_session))) [0x73] =
       Some waiting_session"
proof -
  have present: "game_sessions (demo_run (Some waiting_session))
      (unified_msg_origin (demo_event [0x43])) = Some waiting_session"
    by (simp add: demo_run_def demo_event_def)
  have absent: "last_options waiting_session LABEL_C = None"
    by (simp add: waiting_session_def LABEL_A_def LABEL_B_def LABEL_C_def)
  from choice_without_entry [OF present absent, of "scripted_host replies_return" demo_templates]
    present absent
  show ?thesis by (simp add: demo_run_def)
qed

section \<open>Option generation\<close>

text \<open>
  The run after \<open>_generate_options\<close> when the conversation is found and the three provider
  calls return.
\<close>

lemma generate_options_returned:
  assumes sess: "game_sessions r (unified_msg_origin ev) = Some s"
    and cid: "get_curr_conversation_id h (world r) (unified_msg_origin ev) = (Returned cid, w1)"
    and conv: "get_conversation h w1 (unified_msg_origin ev) cid = (Returned (Some conv), w2)"
    and pa: "get_using_provider h w2 = Returned True"
    and ca: "text_chat h w2
               \<lparr>prompt = OPTION_A_PROMPT tpl, system_prompt = FIXED_SYSTEM_PROMPT,
                contexts = llm_context s\<rparr> = (Returned ra, w3)"
    and pb: "get_using_provider h w3 = Returned True"
    and cb: "text_chat h w3
               \<lparr>prompt = OPTION_B_PROMPT tpl, system_prompt = FIXED_SYSTEM_PROMPT,
                contexts = llm_context s\<rparr> = (Returned rb, w4)"
    and pc: "get_using_provider h w4 = Returned True"
    and cc: "text_chat h w4
               \<lparr>prompt = OPTION_C_PROMPT tpl, system_prompt = FIXED_SYSTEM_PROMPT,
                contexts = llm_context s\<rparr> = (Returned rc, w5)"
  shows "generate_options h tpl ev r =
           r\<lparr>emitted := emitted r @
               [text_or ra FALLBACK_A, text_or rb FALLBACK_B, text_or rc FALLBACK_C],
             requests := requests r @
               [\<lparr>prompt = OPTION_A_PROMPT tpl, system_prompt = FIXED_SYSTEM_PROMPT,
                 contexts = llm_context s\<rparr>,
                \<lparr>prompt = OPTION_B_PROMPT tpl, system_prompt = FIXED_SYSTEM_PROMPT,
                 contexts = llm_context s\<rparr>,
                \<lparr>prompt = OPTION_C_PROMPT tpl, system_prompt = FIXED_SYSTEM_PROMPT,
                 contexts = llm_context s\<rparr>],
             game_sessions := (game_sessions r)
               (unified_msg_origin ev \<mapsto>
                  s\<lparr>llm_context := llm_context s @
                      [\<lparr>role = Assistant,
                        content = options_summary (text_or ra FALLBACK_A) (text_or rb FALLBACK_B)
                          (text_or rc FALLBACK_C)\<rparr>],
                    last_options :=
                      [LABEL_A \<mapsto> text_or ra FALLBACK_A, LABEL_B \<mapsto> text_or rb FALLBACK_B,
                       LABEL_C \<mapsto> text_or rc FALLBACK_C]\<rparr>),
             world := w5\<rparr>"
  using assms
  by (cases r, cases s)
     (simp add: generate_options_def generate_options_body_def current_conversation_def
        option_call_def provider_chat_def append_context_def emit_def Let_def)

text \<open>
  Claim C1, as amended. When the conversation is found and each of the three provider calls
  returns a response, \<open>_generate_options\<close> yields exactly three texts, one per label in the
  order A, B, C, each the completion text of its response or, for a response without
  completion text, the built-in text of that label; afterwards the last options of the
  session hold exactly these three texts under A, B and C.
\<close>

theorem generate_options_three_options:
  assumes "game_sessions r (unified_msg_origin ev) = Some s"
    and "get_curr_conversation_id h (world r) (unified_msg_origin ev) = (Returned cid, w1)"
    and "get_conversation h w1 (unified_msg_origin ev) cid = (Returned (Some conv), w2)"
    and "get_using_provider h w2 = Returned True"
    and "text_chat h w2
           \<lparr>prompt = OPTION_A_PROMPT tpl, system_prompt = FIXED_SYSTEM_PROMPT,
            contexts = llm_context s\<rparr> = (Returned ra, w3)"
    and "get_using_provider h w3 = Returned True"
    and "text_chat h w3
           \<lparr>prompt = OPTION_B_PROMPT tpl, system_prompt = FIXED_SYSTEM_PROMPT,
            contexts = llm_context s\<rparr> = (Returned rb, w4)"
    and "get_using_provider h w4 = Returned True"
    and "text_chat h w4
           \<lparr>prompt = OPTION_C_PROMPT tpl, system_prompt = FIXED_SYSTEM_PROMPT,
            contexts = llm_context s\<rparr> = (Returned rc, w5)"
  shows "emitted (generate_options h tpl ev r) =
           emitted r @ [text_or ra FALLBACK_A, text_or rb FALLBACK_B, text_or rc FALLBACK_C]
       \<and> map_option last_options (game_sessions (generate_options h tpl ev r) (unified_msg_origin ev)) =
           Some [LABEL_A \<mapsto> text_or ra FALLBACK_A, LABEL_B \<mapsto> text_or rb FALLBACK_B,
                 LABEL_C \<mapsto> text_or rc FALLBACK_C]"
  by (simp add: generate_options_returned [OF assms])

theorem generate_options_three_options_witness:
  "emitted (generate_options (scripted_host replies_return) demo_templates (demo_event [])
      (demo_run (Some fresh_session))) = [[0x74, 0x30], [0x74, 0x31], FALLBACK_C]
   \<and> map_option last_options
       (game_sessions (generate_options (scripted_host replies_return) demo_templates
          (demo_event []) (demo_run (Some fresh_session))) [0x73]) =
       Some [LABEL_A \<mapsto> [0x74, 0x30], LABEL_B \<mapsto> [0x74, 0x31], LABEL_C \<mapsto> FALLBACK_C]"
proof -
  let ?h = "scripted_host replies_return"
  let ?r = "demo_run (Some fresh_session)"
  let ?ev = "demo_event []"
  have sess: "game_sessions ?r (unified_msg_origin ?ev) = Some fresh_session"
    by (simp add: demo_run_def demo_event_def)
  have cid: "get_curr_conversation_id ?h (world ?r) (unified_msg_origin ?ev) = (Returned None, 0)"
    by (simp add: scripted_host_def demo_run_def)
  have conv: "get_conversation ?h 0 (unified_msg_origin ?ev) None =
      (Returned (Some \<lparr>persona_id = None\<rparr>), 0)"
    by (simp add: scripted_host_def)
  have prov: "get_using_provider ?h w = Returned True" for w
    by (simp add: scripted_host_def)
  have ca: "text_chat ?h 0
      \<lparr>prompt = OPTION_A_PROMPT demo_templates, system_prompt = FIXED_SYSTEM_PROMPT,
       contexts = llm_context fresh_session\<rparr> =
      (Returned \<lparr>completion_text = Some [0x74, 0x30]\<rparr>, 1)"
    by (simp add: scripted_host_def replies_return_def)
  have cb: "text_chat ?h 1
      \<lparr>prompt = OPTION_B_PROMPT demo_templates, system_prompt = FIXED_SYSTEM_PROMPT,
       contexts = llm_context fresh_session\<rparr> =
      (Returned \<lparr>completion_text = Some [0x74, 0x31]\<rparr>, 2)"
    by (simp add: scripted_host_def replies_return_def)
  have cc: "text_chat ?h 2
      \<lparr>prompt = OPTION_C_PROMPT demo_templates, system_prompt = FIXED_SYSTEM_PROMPT,
       contexts = llm_context fresh_session\<rparr> =
      (Returned \<lparr>completion_text = None\<rparr>, 3)"
    by (simp add: scripted_host_def replies_return_def)
  from generate_options_three_options [OF sess cid conv prov ca prov cb prov cc]
  show ?thesis by (simp add: text_or_def demo_event_def demo_run_def)
qed

text \<open>
  The claim as written, without the condition that the calls return, fails: when
  \<open>text_chat\<close> raises on the first option request of an active session, the \<open>except\<close> clause
  of \<open>_generate_options\<close> yields one failure notice and nothing else, and no label is
  stored.
\<close>

theorem generate_options_raise_counterexample:
  "game_active fresh_session
   \<and> emitted (generate_options (scripted_host replies_raise) demo_templates (demo_event [])
        (demo_run (Some fresh_session))) = [ERR_OPTIONS @ BOOM]
   \<and> length (emitted (generate_options (scripted_host replies_raise) demo_templates
        (demo_event []) (demo_run (Some fresh_session)))) \<noteq> 3
   \<and> last_options (the (game_sessions (generate_options (scripted_host replies_raise)
        demo_templates (demo_event []) (demo_run (Some fresh_session))) [0x73])) LABEL_A = None"
  by (simp add: generate_options_def generate_options_body_def current_conversation_def
      option_call_def provider_chat_def scripted_host_def replies_raise_def demo_event_def
      demo_run_def fresh_session_def emit_def Let_def)

text \<open>
  Claim C5. On a present session, when the conversation is found and the three provider
  calls return, \<open>_generate_options\<close> makes exactly three requests, A, B, C in that order,
  each with the fixed system prompt and with the history the session had before option
  generation (no entry is appended between the calls), and afterwards the history is that
  history followed by exactly one assistant entry, whose content is the header U+63D0
  U+4F9B U+7684 U+9009 U+9879 U+FF1A and a newline, then the three yielded option texts
  separated by newlines. Moreover, in every run on a present session, whatever the host
  answers, the requests made are none, A, then A and B, or A, B and C, each with that same
  history, and the history afterwards is either unchanged or extended by exactly one such
  entry, the second only after all three requests have been made.
\<close>

theorem generate_options_history_discipline:
  assumes "game_sessions r (unified_msg_origin ev) = Some s"
  shows "(get_curr_conversation_id h (world r) (unified_msg_origin ev) = (Returned cid, w1) \<longrightarrow>
          get_conversation h w1 (unified_msg_origin ev) cid = (Returned (Some conv), w2) \<longrightarrow>
          get_using_provider h w2 = Returned True \<longrightarrow>
          text_chat h w2
            \<lparr>prompt = OPTION_A_PROMPT tpl, system_prompt = FIXED_SYSTEM_PROMPT,
             contexts = llm_context s\<rparr> = (Returned ra, w3) \<longrightarrow>
          get_using_provider h w3 = Returned True \<longrightarrow>
          text_chat h w3
            \<lparr>prompt = OPTION_B_PROMPT tpl, system_prompt = FIXED_SYSTEM_PROMPT,
             contexts = llm_context s\<rparr> = (Returned rb, w4) \<longrightarrow>
          get_using_provider h w4 = Returned True \<longrightarrow>
          text_chat h w4
            \<lparr>prompt = OPTION_C_PROMPT tpl, system_prompt = FIXED_SYSTEM_PROMPT,
             contexts = llm_context s\<rparr> = (Returned rc, w5) \<longrightarrow>
            requests (generate_options h tpl ev r) = requests r @
              [\<lparr>prompt = OPTION_A_PROMPT tpl, system_prompt = FIXED_SYSTEM_PROMPT,
                contexts = llm_context s\<rparr>,
               \<lparr>prompt = OPTION_B_PROMPT tpl, system_prompt = FIXED_SYSTEM_PROMPT,
                contexts = llm_context s\<rparr>,
               \<lparr>prompt = OPTION_C_PROMPT tpl, system_prompt = FIXED_SYSTEM_PROMPT,
                contexts = llm_context s\<rparr>]
          \<and> emitted (generate_options h tpl ev r) = emitted r @
              [text_or ra FALLBACK_A, text_or rb FALLBACK_B, text_or rc FALLBACK_C]
          \<and> map_option llm_context
              (game_sessions (generate_options h tpl ev r) (unified_msg_origin ev)) =
              Some (llm_context s @
                [\<lparr>role = Assistant,
                  content = [0x63D0, 0x4F9B, 0x7684, 0x9009, 0x9879, 0xFF1A, 0xA]
                    @ text_or ra FALLBACK_A @ [0xA] @ text_or rb FALLBACK_B @ [0xA]
                    @ text_or rc FALLBACK_C\<rparr>]))
       \<and> (\<exists>s'. game_sessions (generate_options h tpl ev r) (unified_msg_origin ev) = Some s'
          \<and> requests (generate_options h tpl ev r) \<in>
              {requests r,
               requests r @
                 [\<lparr>prompt = OPTION_A_PROMPT tpl, system_prompt = FIXED_SYSTEM_PROMPT,
                   contexts = llm_context s\<rparr>],
               requests r @
                 [\<lparr>prompt = OPTION_A_PROMPT tpl, system_prompt = FIXED_SYSTEM_PROMPT,
                   contexts = llm_context s\<rparr>,
                  \<lparr>prompt = OPTION_B_PROMPT tpl, system_prompt = FIXED_SYSTEM_PROMPT,
                   contexts = llm_context s\<rparr>],
               requests r @
                 [\<lparr>prompt = OPTION_A_PROMPT tpl, system_prompt = FIXED_SYSTEM_PROMPT,
                   contexts = llm_context s\<rparr>,
                  \<lparr>prompt = OPTION_B_PROMPT tpl, system_prompt = FIXED_SYSTEM_PROMPT,
                   contexts = llm_context s\<rparr>,
                  \<lparr>prompt = OPTION_C_PROMPT tpl, system_prompt = FIXED_SYSTEM_PROMPT,
                   contexts = llm_context s\<rparr>]}
          \<and> (llm_context s' = llm_context s
             \<or> (\<exists>a b c.
                  llm_context s' = llm_context s @
                    [\<lparr>role = Assistant,
                      content = [0x63D0, 0x4F9B, 0x7684, 0x9009, 0x9879, 0xFF1A, 0xA]
                        @ a @ [0xA] @ b @ [0xA] @ c\<rparr>]
                  \<and> emitted (generate_options h tpl ev r) = emitted r @ [a, b, c]
                  \<and> requests (generate_options h tpl ev r) = requests r @
                     [\<lparr>prompt = OPTION_A_PROMPT tpl, system_prompt = FIXED_SYSTEM_PROMPT,
                       contexts = llm_context s\<rparr>,
                      \<lparr>prompt = OPTION_B_PROMPT tpl, system_prompt = FIXED_SYSTEM_PROMPT,
                       contexts = llm_context s\<rparr>,
                      \<lparr>prompt = OPTION_C_PROMPT tpl, system_prompt = FIXED_SYSTEM_PROMPT,
                       contexts = llm_context s\<rparr>])))"
proof (rule conjI)
  show "get_curr_conversation_id h (world r) (unified_msg_origin ev) = (Returned cid, w1) \<longrightarrow>
      get_conversation h w1 (unified_msg_origin ev) cid = (Returned (Some conv), w2) \<longrightarrow>
      get_using_provider h w2 = Returned True \<longrightarrow>
      text_chat h w2
        \<lparr>prompt = OPTION_A_PROMPT tpl, system_prompt = FIXED_SYSTEM_PROMPT,
         contexts = llm_context s\<rparr> = (Returned ra, w3) \<longrightarrow>
      get_using_provider h w3 = Returned True \<longrightarrow>
      text_chat h w3
        \<lparr>prompt = OPTION_B_PROMPT tpl, system_prompt = FIXED_SYSTEM_PROMPT,
         contexts = llm_context s\<rparr> = (Returned rb, w4) \<longrightarrow>
      get_using_provider h w4 = Returned True \<longrightarrow>
      text_chat h w4
        \<lparr>prompt = OPTION_C_PROMPT tpl, system_prompt = FIXED_SYSTEM_PROMPT,
         contexts = llm_context s\<rparr> = (Returned rc, w5) \<longrightarrow>
        requests (generate_options h tpl ev r) = requests r @
          [\<lparr>prompt = OPTION_A_PROMPT tpl, system_prompt = FIXED_SYSTEM_PROMPT,
            contexts = llm_context s\<rparr>,
           \<lparr>prompt = OPTION_B_PROMPT tpl, system_prompt = FIXED_SYSTEM_PROMPT,
            contexts = llm_context s\<rparr>,
           \<lparr>prompt = OPTION_C_PROMPT tpl, system_prompt = FIXED_SYSTEM_PROMPT,
            contexts = llm_context s\<rparr>]
      \<and> emitted (generate_options h tpl ev r) = emitted r @
          [text_or ra FALLBACK_A, text_or rb FALLBACK_B, text_or rc FALLBACK_C]
      \<and> map_option llm_context
          (game_sessions (generate_options h tpl ev r) (unified_msg_origin ev)) =
          Some (llm_context s @
            [\<lparr>role = Assistant,
              content = [0x63D0, 0x4F9B, 0x7684, 0x9009, 0x9879, 0xFF1A, 0xA]
                @ text_or ra FALLBACK_A @ [0xA] @ text_or rb FALLBACK_B @ [0xA]
                @ text_or rc FALLBACK_C\<rparr>])"
  proof (intro impI)
    assume cid: "get_curr_conversation_id h (world r) (unified_msg_origin ev) = (Returned cid, w1)"
      and conv: "get_conversation h w1 (unified_msg_origin ev) cid = (Returned (Some conv), w2)"
      and pa: "get_using_provider h w2 = Returned True"
      and ca: "text_chat h w2
          \<lparr>prompt = OPTION_A_PROMPT tpl, system_prompt = FIXED_SYSTEM_PROMPT,
           contexts = llm_context s\<rparr> = (Returned ra, w3)"
      and pb: "get_using_provider h w3 = Returned True"
      and cb: "text_chat h w3
          \<lparr>prompt = OPTION_B_PROMPT tpl, system_prompt = FIXED_SYSTEM_PROMPT,
           contexts = llm_context s\<rparr> = (Returned rb, w4)"
      and pc: "get_using_provider h w4 = Returned True"
      and cc: "text_chat h w4
          \<lparr>prompt = OPTION_C_PROMPT tpl, system_prompt = FIXED_SYSTEM_PROMPT,
           contexts = llm_context s\<rparr> = (Returned rc, w5)"
    show "requests (generate_options h tpl ev r) = requests r @
          [\<lparr>prompt = OPTION_A_PROMPT tpl, system_prompt = FIXED_SYSTEM_PROMPT,
            contexts = llm_context s\<rparr>,
           \<lparr>prompt = OPTION_B_PROMPT tpl, system_prompt = FIXED_SYSTEM_PROMPT,
            contexts = llm_context s\<rparr>,
           \<lparr>prompt = OPTION_C_PROMPT tpl, system_prompt = FIXED_SYSTEM_PROMPT,
            contexts = llm_context s\<rparr>]
      \<and> emitted (generate_options h tpl ev r) = emitted r @
          [text_or ra FALLBACK_A, text_or rb FALLBACK_B, text_or rc FALLBACK_C]
      \<and> map_option llm_context
          (game_sessions (generate_options h tpl ev r) (unified_msg_origin ev)) =
          Some (llm_context s @
            [\<lparr>role = Assistant,
              content = [0x63D0, 0x4F9B, 0x7684, 0x9009, 0x9879, 0xFF1A, 0xA]
                @ text_or ra FALLBACK_A @ [0xA] @ text_or rb FALLBACK_B @ [0xA]
                @ text_or rc FALLBACK_C\<rparr>])"
      by (simp add: generate_options_returned [OF assms cid conv pa ca pb cb pc cc]
          options_summary_def OPTIONS_HEADER_def NEWLINE_def)
  qed
next
  show "\<exists>s'. game_sessions (generate_options h tpl ev r) (unified_msg_origin ev) = Some s'
      \<and> requests (generate_options h tpl ev r) \<in>
          {requests r,
           requests r @
             [\<lparr>prompt = OPTION_A_PROMPT tpl, system_prompt = FIXED_SYSTEM_PROMPT,
               contexts = llm_context s\<rparr>],
           requests r @
             [\<lparr>prompt = OPTION_A_PROMPT tpl, system_prompt = FIXED_SYSTEM_PROMPT,
               contexts = llm_context s\<rparr>,
              \<lparr>prompt = OPTION_B_PROMPT tpl, system_prompt = FIXED_SYSTEM_PROMPT,
               contexts = llm_context s\<rparr>],
           requests r @
             [\<lparr>prompt = OPTION_A_PROMPT tpl, system_prompt = FIXED_SYSTEM_PROMPT,
               contexts = llm_context s\<rparr>,
              \<lparr>prompt = OPTION_B_PROMPT tpl, system_prompt = FIXED_SYSTEM_PROMPT,
               contexts = llm_context s\<rparr>,
              \<lparr>prompt = OPTION_C_PROMPT tpl, system_prompt = FIXED_SYSTEM_PROMPT,
               contexts = llm_context s\<rparr>]}
      \<and> (llm_context s' = llm_context s
         \<or> (\<exists>a b c.
              llm_context s' = llm_context s @
                [\<lparr>role = Assistant,
                  content = [0x63D0, 0x4F9B, 0x7684, 0x9009, 0x9879, 0xFF1A, 0xA]
                    @ a @ [0xA] @ b @ [0xA] @ c\<rparr>]
              \<and> emitted (generate_options h tpl ev r) = emitted r @ [a, b, c]
              \<and> requests (generate_options h tpl ev r) = requests r @
                 [\<lparr>prompt = OPTION_A_PROMPT tpl, system_prompt = FIXED_SYSTEM_PROMPT,
                   contexts = llm_context s\<rparr>,
                  \<lparr>prompt = OPTION_B_PROMPT tpl, system_prompt = FIXED_SYSTEM_PROMPT,
                   contexts = llm_context s\<rparr>,
                  \<lparr>prompt = OPTION_C_PROMPT tpl, system_prompt = FIXED_SYSTEM_PROMPT,
                   contexts = llm_context s\<rparr>]))"
    using assms
    by (cases r, cases s)
       (auto simp: generate_options_def generate_options_body_def current_conversation_def
          option_call_def provider_chat_def append_context_def emit_def Let_def
          options_summary_def OPTIONS_HEADER_def NEWLINE_def
          split: prod.splits outcome.splits option.splits bool.splits)
qed

theorem generate_options_history_discipline_witness:
  "requests (generate_options (scripted_host replies_return) demo_templates (demo_event [])
      (demo_run (Some waiting_session))) =
     [\<lparr>prompt = [0x61], system_prompt = FIXED_SYSTEM_PROMPT,
       contexts = [\<lparr>role = Assistant, content = [0x68]\<rparr>]\<rparr>,
      \<lparr>prompt = [0x62], system_prompt = FIXED_SYSTEM_PROMPT,
       contexts = [\<lparr>role = Assistant, content = [0x68]\<rparr>]\<rparr>,
      \<lparr>prompt = [0x63], system_prompt = FIXED_SYSTEM_PROMPT,
       contexts = [\<lparr>role = Assistant, content = [0x68]\<rparr>]\<rparr>]
   \<and> emitted (generate_options (scripted_host replies_return) demo_templates (demo_event [])
        (demo_run (Some waiting_session))) = [[0x74, 0x30], [0x74, 0x31], FALLBACK_C]
   \<and> map_option llm_context
       (game_sessions (generate_options (scripted_host replies_return) demo_templates
          (demo_event []) (demo_run (Some waiting_session))) [0x73]) =
      Some [\<lparr>role = Assistant, content = [0x68]\<rparr>,
            \<lparr>role = Assistant,
             content = [0x63D0, 0x4F9B, 0x7684, 0x9009, 0x9879, 0xFF1A, 0xA, 0x74, 0x30, 0xA,
                        0x74, 0x31, 0xA] @ FALLBACK_C\<rparr>]"
proof -
  let ?h = "scripted_host replies_return"
  let ?r = "demo_run (Some waiting_session)"
  let ?ev = "demo_event []"
  have present: "game_sessions ?r (unified_msg_origin ?ev) = Some waiting_session"
    by (simp add: demo_run_def demo_event_def)
  have cid: "get_curr_conversation_id ?h (world ?r) (unified_msg_origin ?ev) = (Returned None, 0)"
    by (simp add: scripted_host_def demo_run_def)
  have conv: "get_conversation ?h 0 (unified_msg_origin ?ev) None =
      (Returned (Some \<lparr>persona_id = None\<rparr>), 0)"
    by (simp add: scripted_host_def)
  have prov: "get_using_provider ?h w = Returned True" for w
    by (simp add: scripted_host_def)
  have ca: "text_chat ?h 0
      \<lparr>prompt = OPTION_A_PROMPT demo_templates, system_prompt = FIXED_SYSTEM_PROMPT,
       contexts = llm_context waiting_session\<rparr> =
      (Returned \<lparr>completion_text = Some [0x74, 0x30]\<rparr>, 1)"
    by (simp add: scripted_host_def replies_return_def)
  have cb: "text_chat ?h 1
      \<lparr>prompt = OPTION_B_PROMPT demo_templates, system_prompt = FIXED_SYSTEM_PROMPT,
       contexts = llm_context waiting_session\<rparr> =
      (Returned \<lparr>completion_text = Some [0x74, 0x31]\<rparr>, 2)"
    by (simp add: scripted_host_def replies_return_def)
  have cc: "text_chat ?h 2
      \<lparr>prompt = OPTION_C_PROMPT demo_templates, system_prompt = FIXED_SYSTEM_PROMPT,
       contexts = llm_context waiting_session\<rparr> =
      (Returned \<lparr>completion_text = None\<rparr>, 3)"
    by (simp add: scripted_host_def replies_return_def)
  from generate_options_history_discipline [OF present, THEN conjunct1, rule_format,
      OF cid conv prov ca prov cb prov cc]
  show ?thesis
    by (simp add: text_or_def demo_event_def demo_run_def demo_templates_def
        waiting_session_def)
qed

section \<open>Provider failures in the scene and the continuation\<close>

text \<open>
  Claim C2. When the conversation is found and \<open>text_chat\<close> raises on the scene request,
  \<open>_generate_initial_scene\<close> yields exactly one text, the failure notice ending in the error
  detail; the scene request is the only request made and \<open>game_sessions\<close> is as before, so
  a session that was active with an empty history still is.
\<close>

theorem initial_scene_provider_failure:
  assumes "game_sessions r (unified_msg_origin ev) = Some s"
    and "game_active s" and "llm_context s = []"
    and "get_curr_conversation_id h (world r) (unified_msg_origin ev) = (Returned cid, w1)"
    and "get_conversation h w1 (unified_msg_origin ev) cid = (Returned (Some conv), w2)"
    and "get_llm_tool_manager h w2 = Returned ()"
    and "get_using_provider h w2 = Returned True"
    and "text_chat h w2
           \<lparr>prompt = SYSTEM_SCENE_PROMPT tpl,
            system_prompt = get_system_prompt h w2 (persona_of conv) SCENE_SYSTEM_PROMPT,
            contexts = []\<rparr> = (Raised d, w3)"
  shows "emitted (generate_initial_scene h tpl ev r) = emitted r @ [ERR_SCENE @ d]
       \<and> requests (generate_initial_scene h tpl ev r) = requests r @
           [\<lparr>prompt = SYSTEM_SCENE_PROMPT tpl,
             system_prompt = get_system_prompt h w2 (persona_of conv) SCENE_SYSTEM_PROMPT,
             contexts = []\<rparr>]
       \<and> world (generate_initial_scene h tpl ev r) = w3
       \<and> game_sessions (generate_initial_scene h tpl ev r) = game_sessions r
       \<and> map_option game_active
           (game_sessions (generate_initial_scene h tpl ev r) (unified_msg_origin ev)) = Some True
       \<and> map_option llm_context
           (game_sessions (generate_initial_scene h tpl ev r) (unified_msg_origin ev)) = Some []"
  using assms
  by (simp add: generate_initial_scene_def generate_initial_scene_body_def
      current_conversation_def provider_chat_def Let_def)

theorem initial_scene_provider_failure_witness:
  "emitted (generate_initial_scene (scripted_host replies_raise) demo_templates (demo_event [])
      (demo_run (Some fresh_session))) = [ERR_SCENE @ BOOM]
   \<and> game_sessions (generate_initial_scene (scripted_host replies_raise) demo_templates
       (demo_event []) (demo_run (Some fresh_session))) [0x73] = Some fresh_session"
proof -
  let ?h = "scripted_host replies_raise"
  let ?r = "demo_run (Some fresh_session)"
  let ?ev = "demo_event []"
  have sess: "game_sessions ?r (unified_msg_origin ?ev) = Some fresh_session"
    by (simp add: demo_run_def demo_event_def)
  have active: "game_active fresh_session" and empty: "llm_context fresh_session = []"
    by (simp_all add: fresh_session_def)
  have cid: "get_curr_conversation_id ?h (world ?r) (unified_msg_origin ?ev) = (Returned None, 0)"
    by (simp add: scripted_host_def demo_run_def)
  have conv: "get_conversation ?h 0 (unified_msg_origin ?ev) None =
      (Returned (Some \<lparr>persona_id = None\<rparr>), 0)"
    by (simp add: scripted_host_def)
  have tools: "get_llm_tool_manager ?h 0 = Returned ()"
    by (simp add: scripted_host_def)
  have prov: "get_using_provider ?h 0 = Returned True"
    by (simp add: scripted_host_def)
  have chat: "text_chat ?h 0
      \<lparr>prompt = SYSTEM_SCENE_PROMPT demo_templates,
       system_prompt = get_system_prompt ?h 0 (persona_of \<lparr>persona_id = None\<rparr>) SCENE_SYSTEM_PROMPT,
       contexts = []\<rparr> = (Raised BOOM, 1)"
    by (simp add: scripted_host_def replies_raise_def)
  from initial_scene_provider_failure [OF sess active empty cid conv tools prov chat]
  show ?thesis by (simp add: demo_run_def demo_event_def)
qed

text \<open>
  The run after \<open>_generate_story_progression\<close> when the conversation is found and
  \<open>text_chat\<close> raises on the continuation request.
\<close>

lemma story_progression_raised:
  assumes "game_sessions r (unified_msg_origin ev) = Some s"
    and "get_curr_conversation_id h (world r) (unified_msg_origin ev) = (Returned cid, w1)"
    and "get_conversation h w1 (unified_msg_origin ev) cid = (Returned (Some conv), w2)"
    and "get_using_provider h w2 = Returned True"
    and "text_chat h w2
           \<lparr>prompt = SYSTEM_RESPONSE_PROMPT tpl @ PLAYER_CHOICE @ chosen,
            system_prompt = get_system_prompt h w2 (persona_of conv) STORY_SYSTEM_PROMPT,
            contexts = llm_context s\<rparr> = (Raised d, w3)"
  shows "generate_story_progression h tpl ev choice chosen r =
           r\<lparr>emitted := emitted r @ [ERR_STORY @ d],
             requests := requests r @
               [\<lparr>prompt = SYSTEM_RESPONSE_PROMPT tpl @ PLAYER_CHOICE @ chosen,
                 system_prompt = get_system_prompt h w2 (persona_of conv) STORY_SYSTEM_PROMPT,
                 contexts = llm_context s\<rparr>],
             world := w3\<rparr>"
  using assms
  by (cases r)
     (simp add: generate_story_progression_def generate_story_progression_body_def
        current_conversation_def provider_chat_def emit_def Let_def)

text \<open>
  Claim C3. When the conversation is found and \<open>text_chat\<close> raises on the continuation
  request, \<open>_generate_story_progression\<close> yields exactly one text, the failure notice ending
  in the error detail; the continuation request is the only request made (no option request
  follows) and \<open>game_sessions\<close>, so the last options of the session, is as before.
\<close>

theorem story_progression_provider_failure:
  assumes "game_sessions r (unified_msg_origin ev) = Some s"
    and "get_curr_conversation_id h (world r) (unified_msg_origin ev) = (Returned cid, w1)"
    and "get_conversation h w1 (unified_msg_origin ev) cid = (Returned (Some conv), w2)"
    and "get_using_provider h w2 = Returned True"
    and "text_chat h w2
           \<lparr>prompt = SYSTEM_RESPONSE_PROMPT tpl @ PLAYER_CHOICE @ chosen,
            system_prompt = get_system_prompt h w2 (persona_of conv) STORY_SYSTEM_PROMPT,
            contexts = llm_context s\<rparr> = (Raised d, w3)"
  shows "emitted (generate_story_progression h tpl ev choice chosen r) = emitted r @ [ERR_STORY @ d]
       \<and> requests (generate_story_progression h tpl ev choice chosen r) = requests r @
           [\<lparr>prompt = SYSTEM_RESPONSE_PROMPT tpl @ PLAYER_CHOICE @ chosen,
             system_prompt = get_system_prompt h w2 (persona_of conv) STORY_SYSTEM_PROMPT,
             contexts = llm_context s\<rparr>]
       \<and> world (generate_story_progression h tpl ev choice chosen r) = w3
       \<and> game_sessions (generate_story_progression h tpl ev choice chosen r) = game_sessions r
       \<and> map_option last_options
           (game_sessions (generate_story_progression h tpl ev choice chosen r)
              (unified_msg_origin ev)) = Some (last_options s)"
  using assms(1) by (simp add: story_progression_raised [OF assms])

theorem story_progression_provider_failure_witness:
  "emitted (generate_story_progression (scripted_host replies_raise) demo_templates
      (demo_event [0x41]) LABEL_A [0x41, 0x31] (demo_run (Some waiting_session))) =
     [ERR_STORY @ BOOM]
   \<and> game_sessions (generate_story_progression (scripted_host replies_raise) demo_templates
       (demo_event [0x41]) LABEL_A [0x41, 0x31] (demo_run (Some waiting_session))) [0x73] =
      Some waiting_session"
proof -
  let ?h = "scripted_host replies_raise"
  let ?r = "demo_run (Some waiting_session)"
  let ?ev = "demo_event [0x41]"
  have sess: "game_sessions ?r (unified_msg_origin ?ev) = Some waiting_session"
    by (simp add: demo_run_def demo_event_def)
  have cid: "get_curr_conversation_id ?h (world ?r) (unified_msg_origin ?ev) = (Returned None, 0)"
    by (simp add: scripted_host_def demo_run_def)
  have conv: "get_conversation ?h 0 (unified_msg_origin ?ev) None =
      (Returned (Some \<lparr>persona_id = None\<rparr>), 0)"
    by (simp add: scripted_host_def)
  have prov: "get_using_provider ?h 0 = Returned True"
    by (simp add: scripted_host_def)
  have chat: "text_chat ?h 0
      \<lparr>prompt = SYSTEM_RESPONSE_PROMPT demo_templates @ PLAYER_CHOICE @ [0x41, 0x31],
       system_prompt = get_system_prompt ?h 0 (persona_of \<lparr>persona_id = None\<rparr>) STORY_SYSTEM_PROMPT,
       contexts = llm_context waiting_session\<rparr> = (Raised BOOM, 1)"
    by (simp add: scripted_host_def replies_raise_def)
  from story_progression_provider_failure [OF sess cid conv prov chat, of LABEL_A]
  show ?thesis by (simp add: demo_run_def demo_event_def)
qed

text \<open>
  Claim C10. When the label has a non-empty entry and \<open>text_chat\<close> then raises on the
  continuation request, the user-choice entry appended by \<open>_process_user_choice\<close> stays:
  afterwards the history of the session is the history before followed by that one entry,
  which is its last entry, and the only text yielded is the failure notice.
\<close>

theorem failed_turn_keeps_user_choice:
  assumes "game_sessions r (unified_msg_origin ev) = Some s"
    and "last_options s choice = Some chosen" and "chosen \<noteq> []"
    and "get_curr_conversation_id h (world r) (unified_msg_origin ev) = (Returned cid, w1)"
    and "get_conversation h w1 (unified_msg_origin ev) cid = (Returned (Some conv), w2)"
    and "get_using_provider h w2 = Returned True"
    and "text_chat h w2
           \<lparr>prompt = SYSTEM_RESPONSE_PROMPT tpl @ PLAYER_CHOICE @ chosen,
            system_prompt = get_system_prompt h w2 (persona_of conv) STORY_SYSTEM_PROMPT,
            contexts = llm_context s @ [\<lparr>role = User, content = USER_CHOSE @ chosen\<rparr>]\<rparr>
           = (Raised d, w3)"
  shows "emitted (process_user_choice h tpl ev choice r) = emitted r @ [ERR_STORY @ d]
       \<and> game_sessions (process_user_choice h tpl ev choice r) =
           (game_sessions r)
             (unified_msg_origin ev \<mapsto>
                s\<lparr>llm_context := llm_context s @ [\<lparr>role = User, content = USER_CHOSE @ chosen\<rparr>]\<rparr>)
       \<and> map_option (last \<circ> llm_context)
           (game_sessions (process_user_choice h tpl ev choice r) (unified_msg_origin ev)) =
           Some \<lparr>role = User, content = USER_CHOSE @ chosen\<rparr>"
proof -
  let ?s1 = "s\<lparr>llm_context := llm_context s @ [\<lparr>role = User, content = USER_CHOSE @ chosen\<rparr>]\<rparr>"
  let ?r1 = "r\<lparr>game_sessions := (game_sessions r)(unified_msg_origin ev \<mapsto> ?s1)\<rparr>"
  have appended: "append_context h (unified_msg_origin ev)
      \<lparr>role = User, content = USER_CHOSE @ chosen\<rparr> r = (Returned (), ?r1)"
    using assms(1) by (simp add: append_context_def)
  have story: "generate_story_progression h tpl ev choice chosen ?r1 =
      ?r1\<lparr>emitted := emitted ?r1 @ [ERR_STORY @ d],
          requests := requests ?r1 @
            [\<lparr>prompt = SYSTEM_RESPONSE_PROMPT tpl @ PLAYER_CHOICE @ chosen,
              system_prompt = get_system_prompt h w2 (persona_of conv) STORY_SYSTEM_PROMPT,
              contexts = llm_context ?s1\<rparr>],
          world := w3\<rparr>"
    by (rule story_progression_raised [where cid = cid and ?w1.0 = w1]) (use assms in simp_all)
  have "process_user_choice h tpl ev choice r = generate_story_progression h tpl ev choice chosen ?r1"
    using assms(1-3) by (simp add: process_user_choice_def process_user_choice_body_def appended)
  then show ?thesis by (simp add: story)
qed

theorem failed_turn_keeps_user_choice_witness:
  "last_options waiting_session LABEL_A = Some [0x41, 0x31]
   \<and> emitted (process_user_choice (scripted_host replies_raise) demo_templates
        (demo_event [0x41]) LABEL_A (demo_run (Some waiting_session))) = [ERR_STORY @ BOOM]
   \<and> map_option llm_context (game_sessions (process_user_choice (scripted_host replies_raise)
        demo_templates (demo_event [0x41]) LABEL_A (demo_run (Some waiting_session))) [0x73]) =
      Some [\<lparr>role = Assistant, content = [0x68]\<rparr>,
            \<lparr>role = User, content = USER_CHOSE @ [0x41, 0x31]\<rparr>]"
proof -
  let ?h = "scripted_host replies_raise"
  let ?r = "demo_run (Some waiting_session)"
  let ?ev = "demo_event [0x41]"
  have sess: "game_sessions ?r (unified_msg_origin ?ev) = Some waiting_session"
    by (simp add: demo_run_def demo_event_def)
  have entry: "last_options waiting_session LABEL_A = Some [0x41, 0x31]"
    by (simp add: waiting_session_def LABEL_A_def LABEL_B_def)
  have nonempty: "[0x41, 0x31] \<noteq> ([] :: ustr)"
    by simp
  have cid: "get_curr_conversation_id ?h (world ?r) (unified_msg_origin ?ev) = (Returned None, 0)"
    by (simp add: scripted_host_def demo_run_def)
  have conv: "get_conversation ?h 0 (unified_msg_origin ?ev) None =
      (Returned (Some \<lparr>persona_id = None\<rparr>), 0)"
    by (simp add: scripted_host_def)
  have prov: "get_using_provider ?h 0 = Returned True"
    by (simp add: scripted_host_def)
  have chat: "text_chat ?h 0
      \<lparr>prompt = SYSTEM_RESPONSE_PROMPT demo_templates @ PLAYER_CHOICE @ [0x41, 0x31],
       system_prompt = get_system_prompt ?h 0 (persona_of \<lparr>persona_id = None\<rparr>) STORY_SYSTEM_PROMPT,
       contexts = llm_context waiting_session @
         [\<lparr>role = User, content = USER_CHOSE @ [0x41, 0x31]\<rparr>]\<rparr> = (Raised BOOM, 1)"
    by (simp add: scripted_host_def replies_raise_def)
  from failed_turn_keeps_user_choice [OF sess entry nonempty cid conv prov chat] entry
  show ?thesis by (simp add: demo_run_def demo_event_def waiting_session_def)
qed

section \<open>A whole choice turn\<close>





end
